theory Spec2Isabelle
  imports Complex_Main "HOL-Library.Sublist" "HOL-Library.AList"
begin

section \<open>Python strings\<close>

text \<open>
  A Python \<open>str\<close> is a sequence of code points. Where the program looks at what kind of
  character it holds (\<open>strip\<close>, \<open>isdigit\<close>, \<open>int\<close>), a string is a \<open>str\<close>: the list of
  its code points as integers, and the character classes are the tables of CPython 3.11
  (Unicode 14.0) over all code points. The strings the program only compares, joins and hands
  on (tag, class and attribute names, dictionary keys, URLs, page bodies) are \<open>string\<close>s.
  The interpreter's memory and recursion depth are taken to be unbounded.
\<close>

type_synonym str = "int list"

definition lit :: "string \<Rightarrow> str" where
  \<comment> \<open>a literal of the source as a \<open>str\<close>\<close>
  "lit s = map of_char s"

definition in_ranges :: "int \<Rightarrow> (int \<times> int) list \<Rightarrow> bool" where
  "in_ranges c rs = list_ex (\<lambda>(lo, hi). lo \<le> c \<and> c \<le> hi) rs"

definition is_space :: "int \<Rightarrow> bool" where
  \<comment> \<open>\<open>str.isspace\<close> on one character, which is also what \<open>strip\<close> removes\<close>
  "is_space c =
     in_ranges c
       [(9, 13), (28, 32), (133, 133), (160, 160), (5760, 5760), (8192, 8202), (8232, 8233),
        (8239, 8239), (8287, 8287), (12288, 12288)]"

definition lstrip :: "str \<Rightarrow> str" where
  "lstrip s = dropWhile is_space s"

definition rstrip :: "str \<Rightarrow> str" where
  "rstrip s = rev (dropWhile is_space (rev s))"

definition strip :: "str \<Rightarrow> str" where
  \<comment> \<open>\<open>s.strip()\<close>\<close>
  "strip s = rstrip (lstrip s)"

definition rstrip_chars :: "'a list \<Rightarrow> 'a list \<Rightarrow> 'a list" where
  \<comment> \<open>\<open>s.rstrip(chars)\<close>: drops the trailing characters that occur in \<open>chars\<close>.\<close>
  "rstrip_chars chars s = rev (dropWhile (\<lambda>c. c \<in> set chars) (rev s))"

function replace :: "'a list \<Rightarrow> 'a list \<Rightarrow> 'a list \<Rightarrow> 'a list" where
  \<comment> \<open>\<open>s.replace(old, new)\<close>: the non-overlapping occurrences of \<open>old\<close>, from the left;
      an empty \<open>old\<close> matches before every character and at the end.\<close>
  "replace old new [] = (if old = [] then new else [])"
| "replace old new (c # cs) =
     (if old = [] then new @ c # replace old new cs
      else if prefix old (c # cs) then new @ replace old new (drop (length old) (c # cs))
      else c # replace old new cs)"
  by pat_completeness auto
termination
  by (relation "measure (\<lambda>(old, new, s). length s)") auto

definition LF :: int where "LF = 10"
definition CR :: int where "CR = 13"
definition TAB :: int where "TAB = 9"
definition SPACE :: int where "SPACE = 32"

definition decimal_zeros :: "int list" where
  \<comment> \<open>the digit zero of every script; its nine successors are the digits 1 to 9\<close>
  "decimal_zeros =
     [48, 1632, 1776, 1984, 2406, 2534, 2662, 2790, 2918, 3046, 3174, 3302, 3430, 3558, 3664,
      3792, 3872, 4160, 4240, 6112, 6160, 6470, 6608, 6784, 6800, 6992, 7088, 7232, 7248, 42528,
      43216, 43264, 43472, 43504, 43600, 44016, 65296, 66720, 68912, 69734, 69872, 69942, 70096,
      70384, 70736, 70864, 71248, 71360, 71472, 71904, 72016, 72784, 73040, 73120, 92768, 92864,
      93008, 120782, 120792, 120802, 120812, 120822, 123200, 123632, 125264, 130032]"

definition is_decimal :: "int \<Rightarrow> bool" where
  \<comment> \<open>\<open>str.isdecimal\<close> on one character: the characters \<open>int()\<close> reads as digits\<close>
  "is_decimal c = list_ex (\<lambda>z. z \<le> c \<and> c < z + 10) decimal_zeros"

definition digit_value :: "int \<Rightarrow> int" where
  \<comment> \<open>the digit a decimal character stands for\<close>
  "digit_value c =
     (case List.find (\<lambda>z. z \<le> c \<and> c < z + 10) decimal_zeros of
        None \<Rightarrow> 0
      | Some z \<Rightarrow> c - z)"

definition is_digit :: "int \<Rightarrow> bool" where
  \<comment> \<open>\<open>str.isdigit\<close> on one character: the decimal characters, and the superscript,
      subscript, circled and other digits that \<open>int()\<close> does not read\<close>
  "is_digit c =
     (is_decimal c \<or>
      in_ranges c
        [(178, 179), (185, 185), (4969, 4977), (6618, 6618), (8304, 8304), (8308, 8313),
         (8320, 8329), (9312, 9320), (9332, 9340), (9352, 9360), (9450, 9450), (9461, 9469),
         (9471, 9471), (10102, 10110), (10112, 10120), (10122, 10130), (68160, 68163),
         (69216, 69224), (69714, 69722), (127232, 127242)])"

definition isdigit :: "str \<Rightarrow> bool" where
  \<comment> \<open>\<open>s.isdigit()\<close>: at least one character, all of them digits\<close>
  "isdigit s = (s \<noteq> [] \<and> list_all is_digit s)"

definition is_int_space :: "int \<Rightarrow> bool" where
  \<comment> \<open>the whitespace \<open>int()\<close> skips around a literal: that of \<open>strip\<close> without the four
      separators U+001C .. U+001F\<close>
  "is_int_space c =
     in_ranges c
       [(9, 13), (32, 32), (133, 133), (160, 160), (5760, 5760), (8192, 8202), (8232, 8233),
        (8239, 8239), (8287, 8287), (12288, 12288)]"

definition PLUS :: int where "PLUS = 43"
definition MINUS :: int where "MINUS = 45"
definition UNDERSCORE :: int where "UNDERSCORE = 95"

fun digits_ok :: "str \<Rightarrow> bool" where
  \<comment> \<open>decimal digits, single underscores allowed between two of them\<close>
  "digits_ok [] = False"
| "digits_ok [c] = is_decimal c"
| "digits_ok (c # d # cs) =
     (is_decimal c \<and> (if d = UNDERSCORE then digits_ok cs else digits_ok (d # cs)))"

definition decimal_value :: "str \<Rightarrow> int" where
  "decimal_value ds = foldl (\<lambda>acc c. 10 * acc + digit_value c) 0 ds"

definition max_str_digits :: int where
  \<comment> \<open>the interpreter's default limit on the digits of a decimal conversion\<close>
  "max_str_digits = 4300"

definition py_int :: "str \<Rightarrow> int option" where
  \<comment> \<open>\<open>int(s)\<close>; \<open>None\<close> is ValueError, which a literal of more than 4300 digits raises
      as well as a malformed one\<close>
  "py_int s =
     (let t = rev (dropWhile is_int_space (rev (dropWhile is_int_space s)));
          (sign, ds) = (case t of
                          [] \<Rightarrow> (1, [])
                        | c # cs \<Rightarrow> if c = PLUS then (1, cs)
                                    else if c = MINUS then (- 1, cs) else (1, t))
      in if digits_ok ds \<and> int (length (filter (\<lambda>c. c \<noteq> UNDERSCORE) ds)) \<le> max_str_digits
         then Some (sign * decimal_value (filter (\<lambda>c. c \<noteq> UNDERSCORE) ds))
         else None)"

fun py_max :: "int list \<Rightarrow> int option" where
  \<comment> \<open>\<open>max(xs)\<close>; \<open>None\<close> is the ValueError on an empty list\<close>
  "py_max [] = None"
| "py_max (x # xs) = Some (fold (\<lambda>y m. if m < y then y else m) xs x)"

datatype error = OverflowError | ValueError

fun str_nat :: "nat \<Rightarrow> string" where
  "str_nat n =
     (if n < 10 then [''0123456789'' ! n]
      else str_nat (n div 10) @ [''0123456789'' ! (n mod 10)])"

declare str_nat.simps [simp del]

definition str_int :: "int \<Rightarrow> error + string" where
  \<comment> \<open>\<open>str(i)\<close>, which is what an f-string field \<open>{i}\<close> formats; an integer of more than
      4300 digits raises ValueError\<close>
  "str_int i =
     (let ds = str_nat (nat \<bar>i\<bar>)
      in if max_str_digits < int (length ds) then Inl ValueError
         else Inr (if i < 0 then CHR ''-'' # ds else ds))"

section \<open>The document tree of BeautifulSoup\<close>

text \<open>
  \<open>BeautifulSoup(html, 'lxml')\<close> is a library call; its result is modelled, not the parser.
  A tag has a name, the list of its classes (the multi-valued \<open>class\<close> attribute, empty when
  absent), its other attributes, and its children; the soup itself is the root tag.
\<close>

datatype node = Tag string "string list" "(string \<times> str) list" "node list"
  | NavigableString str

fun contents :: "node \<Rightarrow> node list" where
  "contents (Tag nm cls attrs kids) = kids"
| "contents (NavigableString t) = []"

fun descendants :: "node \<Rightarrow> node list" where
  \<comment> \<open>document order, the node itself excluded\<close>
  "descendants (Tag nm cls attrs kids) = concat (map (\<lambda>k. k # descendants k) kids)"
| "descendants (NavigableString t) = []"

fun get_text :: "node \<Rightarrow> str" where
  "get_text (Tag nm cls attrs kids) = concat (map get_text kids)"
| "get_text (NavigableString t) = t"

fun matches :: "string \<Rightarrow> string option \<Rightarrow> node \<Rightarrow> bool" where
  \<comment> \<open>the filter of \<open>find(name, class_=c)\<close>; \<open>None\<close> when no class is asked for\<close>
  "matches tag_name c (Tag nm cls attrs kids) =
     (nm = tag_name \<and> (case c of None \<Rightarrow> True | Some cl \<Rightarrow> cl \<in> set cls))"
| "matches tag_name c (NavigableString t) = False"

definition find_all :: "string \<Rightarrow> string option \<Rightarrow> node \<Rightarrow> node list" where
  "find_all tag_name c n = filter (matches tag_name c) (descendants n)"

definition find :: "string \<Rightarrow> string option \<Rightarrow> node \<Rightarrow> node option" where
  "find tag_name c n = (case find_all tag_name c n of [] \<Rightarrow> None | x # xs \<Rightarrow> Some x)"

definition find_child :: "string \<Rightarrow> string option \<Rightarrow> node \<Rightarrow> node option" where
  \<comment> \<open>\<open>find(..., recursive=False)\<close>: the children only\<close>
  "find_child tag_name c n =
     (case filter (matches tag_name c) (contents n) of [] \<Rightarrow> None | x # xs \<Rightarrow> Some x)"

fun classes :: "node \<Rightarrow> string list" where
  \<comment> \<open>\<open>tag.get('class', [])\<close>\<close>
  "classes (Tag nm cls attrs kids) = cls"
| "classes (NavigableString t) = []"

fun get_attr :: "node \<Rightarrow> string \<Rightarrow> str \<Rightarrow> str" where
  \<comment> \<open>\<open>tag.get(key, default)\<close> for a single-valued attribute\<close>
  "get_attr (Tag nm cls attrs kids) key dflt =
     (case map_of attrs key of None \<Rightarrow> dflt | Some v \<Rightarrow> v)"
| "get_attr (NavigableString t) key dflt = dflt"

section \<open>utils.py\<close>

definition clean_text :: "str \<Rightarrow> str" where
  "clean_text s =
     (if s = [] then []
      else replace [TAB] [SPACE] (replace [CR] [] (replace [LF] [SPACE] (strip s))))"

definition float_int_limit :: int where
  \<comment> \<open>the least integer that does not convert to a float: it would round to \<open>2 ** 1024\<close>\<close>
  "float_int_limit = 2 ^ 1024 - 2 ^ 970"

definition get_retry_delay :: "int \<Rightarrow> rat \<Rightarrow> error + rat" where
  \<comment> \<open>\<open>min(base_delay * (2 ** attempt), 60)\<close>. A float is modelled by the rational it
      denotes, which is exact for \<open>base_delay = 1.0\<close>, the default and the only value a
      caller passes. For \<open>attempt \<ge> 0\<close> the power is an \<open>int\<close>, and multiplying it by
      the float converts it: from \<open>2 ** 1024\<close> on the conversion raises OverflowError. For
      \<open>attempt < 0\<close> the power is the float \<open>2.0 ** float(attempt)\<close>: the conversion of the
      exponent raises OverflowError from \<open>float_int_limit\<close> on, and the power is 0.0 below
      the smallest subnormal \<open>2 ** -1074\<close>.\<close>
  "get_retry_delay attempt base_delay =
     (if 1024 \<le> attempt then Inl OverflowError
      else if 0 \<le> attempt then Inr (min (base_delay * 2 ^ nat attempt) 60)
      else if attempt \<le> - float_int_limit then Inl OverflowError
      else if attempt < - 1074 then Inr (min (base_delay * 0) 60)
      else Inr (min (base_delay * (1 / 2 ^ nat (- attempt))) 60))"

subsection \<open>The environment\<close>

text \<open>
  What the program takes from outside: the network, the HTML parser and the clock read by
  \<open>format_timestamp\<close>. A request either raises somewhere in the \<open>try\<close> block (connection,
  timeout, decoding, writing the debug file) or yields a status and a body; the network
  answers by URL and by the number of requests sent before.
\<close>

datatype response = Response nat string | Raised

record world =
  net :: "string \<Rightarrow> nat \<Rightarrow> response"
  lxml :: "string \<Rightarrow> node"
  clock :: str

type_synonym tool_item = "(string \<times> str) list"

definition format_timestamp :: "world \<Rightarrow> str" where
  "format_timestamp w = clock w"

definition uncategorized :: str where
  \<comment> \<open>the default category, the three characters U+672A U+5206 U+7C7B\<close>
  "uncategorized = [26410, 20998, 31867]"

definition create_tool_item :: "world \<Rightarrow> str \<Rightarrow> str \<Rightarrow> str \<Rightarrow> str \<Rightarrow> tool_item" where
  \<comment> \<open>the keys of the dict in the order they are written\<close>
  "create_tool_item w nm description u category =
     [(''name'', clean_text nm),
      (''description'', clean_text description),
      (''url'', strip u),
      (''category'', clean_text category),
      (''crawl_time'', format_timestamp w)]"

section \<open>parser.py\<close>

definition span_step :: "node \<Rightarrow> str \<times> str \<Rightarrow> str \<times> str" where
  \<comment> \<open>one turn of the loop over the spans, on the pair (views, likes)\<close>
  "span_step sp vl =
     (if ''down'' \<in> set (classes sp)
      then (strip (replace (lit ''down'') [] (get_text sp)), snd vl)
      else if ''home-like'' \<in> set (classes sp)
      then (fst vl, strip (get_text sp))
      else vl)"

definition parse_tool_card :: "world \<Rightarrow> node \<Rightarrow> tool_item option" where
  \<comment> \<open>No operation of the \<open>try\<close> block raises on a document tree, so the \<open>except\<close>
      branch has no counterpart here.\<close>
  "parse_tool_card w card_element =
     (case find ''div'' (Some ''card-body'') card_element of
        None \<Rightarrow> None
      | Some card_body \<Rightarrow>
     (case find ''div'' (Some ''app-content'') card_body of
        None \<Rightarrow> None
      | Some app_content \<Rightarrow>
     (case find ''a'' None app_content of
        None \<Rightarrow> None
      | Some title_element \<Rightarrow>
          let nm = strip (get_text title_element);
              u = get_attr title_element ''href'' [];
              description =
                (case find ''div'' (Some ''text-muted'') app_content of
                   Some description_element \<Rightarrow> strip (get_text description_element)
                 | None \<Rightarrow> []);
              category =
                (case find ''div'' (Some ''tga'') app_content of
                   None \<Rightarrow> uncategorized
                 | Some tga_element \<Rightarrow>
                     (case find ''a'' None tga_element of
                        None \<Rightarrow> uncategorized
                      | Some category_link \<Rightarrow> strip (get_text category_link)));
              vl =
                (case find_child ''div'' (Some ''text-muted'') app_content of
                   None \<Rightarrow> (lit ''0'', lit ''0'')
                 | Some meta_info \<Rightarrow>
                     fold span_step (find_all ''span'' None meta_info) (lit ''0'', lit ''0''));
              icon_url =
                (case find ''a'' (Some ''media-content'') card_body of
                   None \<Rightarrow> []
                 | Some media_content \<Rightarrow>
                     strip (replace (lit '')'') [] (replace (lit ''url('') []
                       (get_attr media_content ''data-bg'' []))));
              tool_info = create_tool_item w nm description u category
          in Some (AList.update ''icon_url'' icon_url
                    (AList.update ''likes'' (clean_text (snd vl))
                      (AList.update ''views'' (clean_text (fst vl)) tool_info))))))"

fun parse_cards :: "world \<Rightarrow> node list \<Rightarrow> tool_item list" where
  \<comment> \<open>the loop of \<open>parse_tool_list\<close> over the cards\<close>
  "parse_cards w [] = []"
| "parse_cards w (c # cards) =
     (case parse_tool_card w c of
        None \<Rightarrow> parse_cards w cards
      | Some tool_info \<Rightarrow> tool_info # parse_cards w cards)"

definition parse_tool_list :: "world \<Rightarrow> string \<Rightarrow> tool_item list" where
  "parse_tool_list w html_content =
     parse_cards w (find_all ''div'' (Some ''card-app'') (lxml w html_content))"

record pagination_info =
  current_page :: int
  total_pages :: int

definition page_numbers :: "node list \<Rightarrow> int list option" where
  \<comment> \<open>the list comprehension over the links; \<open>None\<close> when an \<open>int()\<close> in it raises\<close>
  "page_numbers page_links = those (map py_int (filter isdigit (map get_text page_links)))"

definition extract_pagination_info :: "world \<Rightarrow> string \<Rightarrow> pagination_info" where
  "extract_pagination_info w html_content =
     (case find ''div'' (Some ''pagination'') (lxml w html_content) of
        None \<Rightarrow> \<lparr>current_page = 1, total_pages = 1\<rparr>
      | Some pagination \<Rightarrow>
          \<lparr>current_page =
             (case find ''span'' (Some ''current'') pagination of
                None \<Rightarrow> 1
              | Some current \<Rightarrow>
                  (case py_int (get_text current) of None \<Rightarrow> 1 | Some n \<Rightarrow> n)),
           total_pages =
             (let page_links = find_all ''a'' (Some ''page-numbers'') pagination
              in if page_links = [] then 1
                 else (case page_numbers page_links of
                         None \<Rightarrow> 1
                       | Some ns \<Rightarrow>
                           if ns = [] then 1
                           else (case py_max ns of None \<Rightarrow> 1 | Some m \<Rightarrow> m)))\<rparr>)"

definition is_valid_page :: "world \<Rightarrow> string \<Rightarrow> bool" where
  "is_valid_page w html_content =
     (case find ''div'' (Some ''content'') (lxml w html_content) of
        None \<Rightarrow> False
      | Some content_area \<Rightarrow> find_all ''div'' (Some ''card-app'') (lxml w html_content) \<noteq> [])"

section \<open>crawler.py\<close>

text \<open>
  The fields of \<open>AICrawler\<close> (the session as the flag "is set"), and the trace of what the
  crawler did to the outside: the URLs it requested and the delays it slept, in order.
\<close>

record crawler =
  base_url :: string
  max_retries :: int
  tools :: "tool_item list"
  session :: bool
  requested :: "string list"
  slept :: "rat list"

definition init :: "string \<Rightarrow> int \<Rightarrow> crawler" where
  \<comment> \<open>\<open>AICrawler.__init__\<close>\<close>
  "init url retries =
     \<lparr>base_url = rstrip_chars ''/'' url, max_retries = retries, tools = [],
      session = False, requested = [], slept = []\<rparr>"

definition aenter :: "crawler \<Rightarrow> crawler" where
  "aenter s = s\<lparr>session := True\<rparr>"

datatype outcome = Returned string | Fell_through | Caught

definition try_get :: "world \<Rightarrow> crawler \<Rightarrow> string \<Rightarrow> outcome \<times> crawler" where
  \<comment> \<open>the \<open>try\<close> block of \<open>fetch_page\<close>: it returns the body on status 200, falls through
      to the end of the function on another status, and lands in \<open>except\<close> when it raises\<close>
  "try_get w s url =
     (if \<not> session s then (Caught, s)
      else (case net w url (length (requested s)) of
              Response status html_content \<Rightarrow>
                (if status = 200 then Returned html_content else Fell_through,
                 s\<lparr>requested := requested s @ [url]\<rparr>)
            | Raised \<Rightarrow> (Caught, s\<lparr>requested := requested s @ [url]\<rparr>)))"

function fetch_page :: "world \<Rightarrow> crawler \<Rightarrow> string \<Rightarrow> int \<Rightarrow> (error + string option) \<times> crawler" where
  \<comment> \<open>\<open>Inl\<close>: the exception that leaves \<open>fetch_page\<close>; \<open>Inr None\<close>: it returns None\<close>
  "fetch_page w s url retry_count =
     (case fst (try_get w s url) of
        Returned html_content \<Rightarrow> (Inr (Some html_content), snd (try_get w s url))
      | Fell_through \<Rightarrow> (Inr None, snd (try_get w s url))
      | Caught \<Rightarrow>
          if retry_count < max_retries s
          then (case get_retry_delay retry_count 1 of
                  Inl e \<Rightarrow> (Inl e, snd (try_get w s url))
                | Inr delay \<Rightarrow>
                    fetch_page w ((snd (try_get w s url))\<lparr>slept := slept (snd (try_get w s url)) @ [delay]\<rparr>)
                      url (retry_count + 1))
          else (Inr None, snd (try_get w s url)))"
  by pat_completeness auto
termination
  by (relation "measure (\<lambda>(w, s, url, retry_count). nat (max_retries s - retry_count))")
     (auto simp: try_get_def split: response.splits if_splits)

declare fetch_page.simps [simp del]

definition page_url :: "crawler \<Rightarrow> int \<Rightarrow> error + string" where
  \<comment> \<open>the URL \<open>crawl_page\<close> builds; \<open>Inl\<close> when formatting the page number raises\<close>
  "page_url s page =
     (if 1 < page
      then (case str_int page of
              Inl e \<Rightarrow> Inl e
            | Inr digits \<Rightarrow> Inr (base_url s @ ''page/'' @ digits))
      else Inr (base_url s))"

definition page_fetch :: "world \<Rightarrow> rat \<Rightarrow> crawler \<Rightarrow> int \<Rightarrow> (error + string option) \<times> crawler" where
  \<comment> \<open>\<open>crawl_page\<close> up to the result of its fetch: it builds the URL, sleeps the pause that
      \<open>random.uniform(2, 5)\<close> draws, and fetches\<close>
  "page_fetch w pause s page =
     (case page_url s page of
        Inl e \<Rightarrow> (Inl e, s)
      | Inr url \<Rightarrow> fetch_page w (s\<lparr>slept := slept s @ [pause]\<rparr>) url 0)"

definition crawl_page :: "world \<Rightarrow> rat \<Rightarrow> crawler \<Rightarrow> int \<Rightarrow> (error + bool) \<times> crawler" where
  "crawl_page w pause s page =
     (let r = page_fetch w pause s page;
          s' = snd r
      in case fst r of
           Inl e \<Rightarrow> (Inl e, s')
         | Inr None \<Rightarrow> (Inr False, s')
         | Inr (Some html_content) \<Rightarrow>
             if html_content = [] then (Inr False, s')
             else if \<not> is_valid_page w html_content then (Inr False, s')
             else (let page_tools = parse_tool_list w html_content
                   in if page_tools \<noteq> []
                      then (Inr True, s'\<lparr>tools := tools s' @ page_tools\<rparr>)
                      else (Inr False, s')))"

definition crawl_all_first_page :: "world \<Rightarrow> crawler \<Rightarrow> (error + int option) \<times> crawler" where
  \<comment> \<open>\<open>crawl_all\<close> up to the fan-out over the pages 2 to N, which are \<open>crawl_page\<close>
      operations. \<open>Inr None\<close>: the first page could not be fetched and the run ends;
      \<open>Inr (Some n)\<close>: the run goes on with \<open>total_pages = n\<close>.\<close>
  "crawl_all_first_page w s =
     (let r = fetch_page w s (base_url s) 0;
          s' = snd r
      in case fst r of
           Inl e \<Rightarrow> (Inl e, s')
         | Inr None \<Rightarrow> (Inr None, s')
         | Inr (Some html_content) \<Rightarrow>
             if html_content = [] then (Inr None, s')
             else (let page_tools =
                         (if is_valid_page w html_content then parse_tool_list w html_content
                          else []);
                       s'' = (if page_tools \<noteq> [] then s'\<lparr>tools := tools s' @ page_tools\<rparr> else s')
                   in (Inr (Some (total_pages (extract_pagination_info w html_content))), s'')))"

definition successful_pages :: "bool list \<Rightarrow> nat" where
  \<comment> \<open>\<open>sum(1 for r in results if r)\<close> in \<open>crawl_all\<close>\<close>
  "successful_pages results = length (filter (\<lambda>r. r) results)"

section \<open>Reference readings of the specification\<close>

definition subst :: "int \<Rightarrow> str" where
  \<comment> \<open>newline to a space, carriage return to nothing, tab to a space\<close>
  "subst c =
     (if c = LF then [SPACE] else if c = CR then [] else if c = TAB then [SPACE] else [c])"

definition clean_spec :: "str \<Rightarrow> str" where
  \<comment> \<open>the contract of \<open>clean\<close> in the specification: strip, then substitute character by
      character\<close>
  "clean_spec s = concat (map subst (strip s))"

definition entry_complete :: "node \<Rightarrow> bool" where
  \<comment> \<open>the primary content block and the name anchor of an entry can be located\<close>
  "entry_complete card_element =
     (case find ''div'' (Some ''card-body'') card_element of
        None \<Rightarrow> False
      | Some card_body \<Rightarrow>
          (case find ''div'' (Some ''app-content'') card_body of
             None \<Rightarrow> False
           | Some app_content \<Rightarrow> find ''a'' None app_content \<noteq> None))"

definition name_anchor :: "node \<Rightarrow> node option" where
  \<comment> \<open>the name anchor of an entry: the first anchor of its content block\<close>
  "name_anchor card_element =
     (case find ''div'' (Some ''card-body'') card_element of
        None \<Rightarrow> None
      | Some card_body \<Rightarrow>
          (case find ''div'' (Some ''app-content'') card_body of
             None \<Rightarrow> None
           | Some app_content \<Rightarrow> find ''a'' None app_content))"

definition record_of_entry :: "tool_item \<Rightarrow> node \<Rightarrow> bool" where
  \<comment> \<open>the entry has a name anchor, the record's name is the cleaned, stripped text of that
      anchor and its url the stripped \<open>href\<close> of that anchor, empty when there is none\<close>
  "record_of_entry r card_element =
     (case name_anchor card_element of
        None \<Rightarrow> False
      | Some title_element \<Rightarrow>
          map_of r ''name'' = Some (clean_text (strip (get_text title_element))) \<and>
          map_of r ''url'' = Some (strip (get_attr title_element ''href'' [])))"

definition extracted_on_page :: "world \<Rightarrow> string \<Rightarrow> tool_item \<Rightarrow> bool" where
  \<comment> \<open>the record is that of an entry of the page\<close>
  "extracted_on_page w html r =
     list_ex (record_of_entry r) (find_all ''div'' (Some ''card-app'') (lxml w html))"

definition page_link_texts :: "node \<Rightarrow> str list" where
  \<comment> \<open>the texts of the page links of a pagination control\<close>
  "page_link_texts pagination = map get_text (find_all ''a'' (Some ''page-numbers'') pagination)"

definition rejected_digits :: "str \<Rightarrow> bool" where
  \<comment> \<open>the text passes \<open>isdigit()\<close> and \<open>int()\<close> raises on it\<close>
  "rejected_digits t = (isdigit t \<and> py_int t = None)"

definition link_numbers :: "str list \<Rightarrow> int list" where
  \<comment> \<open>the values \<open>int()\<close> gives for the texts that pass \<open>isdigit()\<close>\<close>
  "link_numbers texts = List.map_filter py_int (filter isdigit texts)"

definition claimed_total_pages :: "str list \<Rightarrow> int" where
  \<comment> \<open>the specification's \<open>total_pages\<close>: the maximum of the link texts that parse as
      integers, 1 when none does\<close>
  "claimed_total_pages texts =
     (case List.map_filter py_int texts of [] \<Rightarrow> 1 | n # ns \<Rightarrow> Max (set (n # ns)))"

section \<open>Example documents and servers\<close>

definition tool_card :: "str \<Rightarrow> str \<Rightarrow> node" where
  \<comment> \<open>an entry with a name anchor\<close>
  "tool_card nm href =
     Tag ''div'' [''card-app''] []
       [Tag ''div'' [''card-body''] []
          [Tag ''div'' [''app-content''] []
             [Tag ''a'' [] [(''href'', href)] [NavigableString nm]]]]"

definition broken_card :: node where
  \<comment> \<open>an entry without its content block\<close>
  "broken_card = Tag ''div'' [''card-app''] [] [Tag ''div'' [''card-body''] [] []]"

definition blank_card :: node where
  \<comment> \<open>an entry whose anchor has neither text nor \<open>href\<close>\<close>
  "blank_card =
     Tag ''div'' [''card-app''] []
       [Tag ''div'' [''card-body''] []
          [Tag ''div'' [''app-content''] [] [Tag ''a'' [] [] []]]]"

definition blank_item :: tool_item where
  "blank_item =
     [(''name'', []), (''description'', []), (''url'', []),
      (''category'', uncategorized), (''crawl_time'', lit ''2024-01-01 00:00:00''),
      (''views'', lit ''0''), (''likes'', lit ''0''), (''icon_url'', [])]"

definition listing :: "node list \<Rightarrow> node" where
  "listing cards = Tag ''[document]'' [] [] [Tag ''div'' [''content''] [] cards]"

definition pager :: "str list \<Rightarrow> str list \<Rightarrow> node" where
  \<comment> \<open>a pagination control with the given current markers and page links\<close>
  "pager current links =
     Tag ''div'' [''pagination''] []
       (map (\<lambda>t. Tag ''span'' [''page-numbers'', ''current''] [] [NavigableString t]) current @
        map (\<lambda>t. Tag ''a'' [''page-numbers''] [] [NavigableString t]) links)"

definition paged :: "str list \<Rightarrow> str list \<Rightarrow> node" where
  "paged current links = Tag ''[document]'' [] [] [pager current links]"

definition SUPERSCRIPT_TWO :: int where
  "SUPERSCRIPT_TWO = 178"

definition serving :: "node \<Rightarrow> world" where
  \<comment> \<open>every request is answered with status 200, and the body parses to \<open>doc\<close>\<close>
  "serving doc =
     \<lparr>net = (\<lambda>url n. Response 200 ''<html>''), lxml = (\<lambda>html. doc),
      clock = lit ''2024-01-01 00:00:00''\<rparr>"

definition failing_server :: world where
  \<comment> \<open>every request is answered with status 503\<close>
  "failing_server =
     \<lparr>net = (\<lambda>url n. Response 503 []), lxml = (\<lambda>html. Tag ''[document]'' [] [] []),
      clock = []\<rparr>"

definition raising_server :: world where
  \<comment> \<open>every request raises\<close>
  "raising_server =
     \<lparr>net = (\<lambda>url n. Raised), lxml = (\<lambda>html. Tag ''[document]'' [] [] []),
      clock = []\<rparr>"

definition crawler0 :: crawler where
  \<comment> \<open>\<open>AICrawler("https://x/y/")\<close> inside its \<open>async with\<close> block\<close>
  "crawler0 = aenter (init ''https://x/y/'' 3)"

section \<open>Text cleaning\<close>

lemma replace_single: "replace [a] new s = concat (map (\<lambda>c. if c = a then new else [c]) s)"
  by (induction s) auto

lemma concat_map_concat_map:
  "concat (map f (concat (map g t))) = concat (map (\<lambda>c. concat (map f (g c))) t)"
  by (induction t) auto

lemma subst_chain:
  "concat (map (\<lambda>c. concat (map (\<lambda>c. if c = TAB then [SPACE] else [c])
                                (if c = CR then [] else [c])))
     (if c = LF then [SPACE] else [c])) = subst c"
  by (simp add: subst_def LF_def CR_def TAB_def SPACE_def)

lemma strip_Nil: "strip [] = []"
  by (simp add: strip_def lstrip_def rstrip_def)

text \<open>
  C6, as amended. For every string, \<open>clean_text\<close> is \<open>strip\<close> followed by the three
  substitutions (newline to space, carriage return removed, tab to space), with no further
  trimming; on \<open>" a\nb\tc\r "\<close> the trailing carriage return and space are both removed by
  \<open>strip\<close>, so the result is \<open>"a b c"\<close>.
\<close>

theorem clean_text_is_strip_then_substitute:
  "clean_text s = clean_spec s \<and>
   clean_text (lit '' a'' @ [LF] @ lit ''b'' @ [TAB] @ lit ''c'' @ [CR] @ lit '' '') =
     lit ''a b c''"
proof
  show "clean_text s = clean_spec s"
  proof (cases "s = []")
    case True
    then show ?thesis by (simp add: clean_text_def clean_spec_def strip_Nil)
  next
    case False
    then show ?thesis
      by (simp add: clean_text_def clean_spec_def replace_single concat_map_concat_map subst_chain)
  qed
next
  show "clean_text (lit '' a'' @ [LF] @ lit ''b'' @ [TAB] @ lit ''c'' @ [CR] @ lit '' '') =
     lit ''a b c''"
    by code_simp
qed

text \<open>C6 as stated fails on its own example: the result has no trailing space.\<close>

theorem clean_text_example_counterexample:
  "clean_text (lit '' a'' @ [LF] @ lit ''b'' @ [TAB] @ lit ''c'' @ [CR] @ lit '' '') \<noteq>
     lit ''a b c ''"
  by code_simp

section \<open>Retry delay\<close>

text \<open>
  C7, as amended. With the base delay of one second, for every attempt from 0 to 1023 the delay
  is \<open>min(1 * 2^attempt, 60)\<close>; the delays of attempts 0 to 6 are 1, 2, 4, 8, 16, 32, 60.
\<close>

theorem get_retry_delay_capped:
  "0 \<le> attempt \<Longrightarrow> attempt < 1024 \<Longrightarrow>
   get_retry_delay attempt 1 = Inr (min (1 * 2 ^ nat attempt) 60) \<and>
   map (\<lambda>a. get_retry_delay a 1) [0, 1, 2, 3, 4, 5, 6] = map Inr [1, 2, 4, 8, 16, 32, 60]"
  by (simp add: get_retry_delay_def)

theorem get_retry_delay_capped_witness:
  "(0::int) \<le> 7 \<and> (7::int) < 1024 \<and> get_retry_delay 7 1 = Inr 60"
  using get_retry_delay_capped [of 7] by simp

text \<open>
  C7 as stated, for every natural number: at attempt 1024 the power no longer converts to a
  float and the function raises instead of returning 60.
\<close>

theorem get_retry_delay_overflow_counterexample:
  "get_retry_delay 1024 1 = Inl OverflowError \<and>
   get_retry_delay 1024 1 \<noteq> Inr (min (1 * 2 ^ nat 1024) 60)"
  by (simp add: get_retry_delay_def)

section \<open>Page URLs\<close>

text \<open>
  C1, evaluated on the code. The constructor strips the trailing slash of the base URL and
  \<open>crawl_page\<close> appends \<open>page/N\<close> with no separator: for the base \<open>https://x/y/\<close> and
  page 3 the URL built and requested is \<open>https://x/ypage/3\<close>, not \<open>https://x/y/page/3\<close>,
  and for page 1 it is the stripped \<open>https://x/y\<close>.
\<close>

theorem page_url_lacks_separator:
  "page_url (init ''https://x/y/'' 3) 3 = Inr ''https://x/ypage/3'' \<and>
   page_url (init ''https://x/y/'' 3) 3 \<noteq> Inr ''https://x/y/page/3'' \<and>
   requested (snd (crawl_page (serving (listing [])) 2 crawler0 3)) = [''https://x/ypage/3''] \<and>
   requested (snd (crawl_page (serving (listing [])) 2 crawler0 1)) = [''https://x/y'']"
  by code_simp

section \<open>Fetching\<close>

lemma tools_try_get: "tools (snd (try_get w s url)) = tools s"
  by (simp add: try_get_def split: response.splits)

lemma tools_fetch_page: "tools (snd (fetch_page w s url retry_count)) = tools s"
proof (induction w s url retry_count rule: fetch_page.induct)
  case (1 w s url retry_count)
  show ?case
  proof (cases "fst (try_get w s url)")
    case (Returned html)
    then show ?thesis by (simp add: fetch_page.simps [of w s url retry_count] tools_try_get)
  next
    case Fell_through
    then show ?thesis by (simp add: fetch_page.simps [of w s url retry_count] tools_try_get)
  next
    case Caught
    show ?thesis
    proof (cases "retry_count < max_retries s")
      case False
      with Caught show ?thesis by (simp add: fetch_page.simps [of w s url retry_count] tools_try_get)
    next
      case True
      show ?thesis
      proof (cases "get_retry_delay retry_count 1")
        case (Inl e)
        with Caught True show ?thesis
          by (simp add: fetch_page.simps [of w s url retry_count] tools_try_get)
      next
        case (Inr delay)
        with Caught True "1.IH" [OF Caught True Inr] show ?thesis
          by (simp add: fetch_page.simps [of w s url retry_count] tools_try_get)
      qed
    qed
  qed
qed

lemma tools_page_fetch: "tools (snd (page_fetch w pause s page)) = tools s"
  by (simp add: page_fetch_def tools_fetch_page split: sum.splits)

text \<open>A status other than 200 ends the fetch at once: one request, no sleep, no retry.\<close>

lemma fetch_page_other_status:
  assumes "session s" and "net w url (length (requested s)) = Response status body"
    and "status \<noteq> 200"
  shows "fetch_page w s url retry_count = (Inr None, s\<lparr>requested := requested s @ [url]\<rparr>)"
  using assms by (simp add: fetch_page.simps [of w s url retry_count] try_get_def)

lemma try_get_Raised:
  "session s \<Longrightarrow> net w url (length (requested s)) = Raised \<Longrightarrow>
   try_get w s url = (Caught, s\<lparr>requested := requested s @ [url]\<rparr>)"
  by (simp add: try_get_def)

text \<open>
  When every request raises, the fetch sleeps the backoff delay and tries again until the
  retry count reaches \<open>max_retries\<close>, and then returns None.
\<close>

lemma fetch_page_raising:
  "session s \<Longrightarrow> (\<And>n. net w url n = Raised) \<Longrightarrow> 0 \<le> retry_count \<Longrightarrow>
   retry_count \<le> max_retries s \<Longrightarrow> max_retries s \<le> 1024 \<Longrightarrow>
   fetch_page w s url retry_count =
     (Inr None,
      s\<lparr>requested := requested s @ replicate (nat (max_retries s - retry_count) + 1) url,
        slept := slept s @ map (\<lambda>k. min (2 ^ k) 60) [nat retry_count ..< nat (max_retries s)]\<rparr>)"
proof (induction w s url retry_count rule: fetch_page.induct)
  case (1 w s url retry_count)
  let ?s = "s\<lparr>requested := requested s @ [url]\<rparr>"
  from "1.prems" have tg: "try_get w s url = (Caught, ?s)"
    by (simp add: try_get_Raised)
  show ?case
  proof (cases "retry_count < max_retries s")
    case False
    with "1.prems" have e: "nat (max_retries s - retry_count) = 0"
      "[nat retry_count ..< nat (max_retries s)] = []"
      by simp_all
    show ?thesis
      unfolding fetch_page.simps [of w s url retry_count] e
      using tg False by simp
  next
    case True
    let ?d = "min (2 ^ nat retry_count) (60::rat)"
    let ?t = "?s\<lparr>slept := slept ?s @ [?d]\<rparr>"
    from True "1.prems" have d: "get_retry_delay retry_count 1 = Inr ?d"
      by (simp add: get_retry_delay_def)
    have c: "fst (try_get w s url) = Caught"
      using tg by simp
    from tg have st: "snd (try_get w s url) = ?s" by simp
    have ih: "fetch_page w ?t url (retry_count + 1) =
      (Inr None,
       ?t\<lparr>requested := requested ?t @ replicate (nat (max_retries ?t - (retry_count + 1)) + 1) url,
          slept := slept ?t @
            map (\<lambda>k. min (2 ^ k) 60) [nat (retry_count + 1) ..< nat (max_retries ?t)]\<rparr>)"
      using "1.IH" [OF c True d] "1.prems" True unfolding st by simp
    from True "1.prems" have r:
      "nat (max_retries s - retry_count) = Suc (nat (max_retries s - (retry_count + 1)))"
      by simp
    from True "1.prems" have u: "[nat retry_count ..< nat (max_retries s)] =
        nat retry_count # [nat (retry_count + 1) ..< nat (max_retries s)]"
      by (simp add: upt_conv_Cons nat_add_distrib)
    show ?thesis
      unfolding fetch_page.simps [of w s url retry_count] st
      using c True d ih by (simp add: r u)
  qed
qed

text \<open>
  C3, evaluated on the code. With \<open>max_retries = 3\<close>, a server that answers every request
  with status 503 is asked once and \<open>fetch_page\<close> returns None without sleeping, whereas a
  request that raises every time is made four times with the delays 1, 2, 4 in between: the
  retry sits in the exception handler only, so a status other than 200 is not treated like an
  exception.
\<close>

theorem fetch_page_status_not_retried:
  "fetch_page failing_server crawler0 ''https://x/y'' 0 =
     (Inr None, crawler0\<lparr>requested := [''https://x/y'']\<rparr>) \<and>
   fetch_page raising_server crawler0 ''https://x/y'' 0 =
     (Inr None,
      crawler0\<lparr>requested := [''https://x/y'', ''https://x/y'', ''https://x/y'', ''https://x/y''],
        slept := [1, 2, 4]\<rparr>)"
  by code_simp

section \<open>Extraction of the entries\<close>

lemma parse_tool_card_complete: "(parse_tool_card w c = None) = (\<not> entry_complete c)"
  by (simp add: parse_tool_card_def entry_complete_def Let_def split: option.splits)

lemma parse_cards_filter:
  "map Some (parse_cards w cards) = map (parse_tool_card w) (filter entry_complete cards)"
proof (induction cards)
  case Nil
  show ?case by simp
next
  case (Cons c cards)
  show ?case
  proof (cases "parse_tool_card w c")
    case None
    with Cons parse_tool_card_complete [of w c] show ?thesis by simp
  next
    case (Some t)
    with Cons parse_tool_card_complete [of w c] show ?thesis by simp
  qed
qed

lemma parse_tool_card_record: "parse_tool_card w c = Some r \<Longrightarrow> record_of_entry r c"
  by (auto simp: parse_tool_card_def record_of_entry_def name_anchor_def Let_def
        create_tool_item_def update_conv' split: option.splits)

lemma in_parse_cards:
  "r \<in> set (parse_cards w cards) \<Longrightarrow> \<exists>c. c \<in> set cards \<and> parse_tool_card w c = Some r"
  by (induction cards) (auto split: option.splits)

lemma parse_tool_list_extracted:
  "r \<in> set (parse_tool_list w html) \<Longrightarrow> extracted_on_page w html r"
proof -
  assume "r \<in> set (parse_tool_list w html)"
  then obtain c where c: "c \<in> set (find_all ''div'' (Some ''card-app'') (lxml w html))"
    and p: "parse_tool_card w c = Some r"
    unfolding parse_tool_list_def using in_parse_cards by blast
  from parse_tool_card_record [OF p] c show ?thesis
    by (auto simp: extracted_on_page_def list_ex_iff)
qed

text \<open>
  C8. The records of a page are the results of the entries whose content block and name anchor
  can be located, one record for each of them and in the order of these entries in the markup;
  an entry yields no record exactly when one of the two cannot be located, and the extraction
  always returns its list.
\<close>

theorem parse_tool_list_keeps_complete_entries:
  "map Some (parse_tool_list w html) =
     map (parse_tool_card w)
       (filter entry_complete (find_all ''div'' (Some ''card-app'') (lxml w html))) \<and>
   length (parse_tool_list w html) =
     length (filter entry_complete (find_all ''div'' (Some ''card-app'') (lxml w html))) \<and>
   (parse_tool_card w c = None) = (\<not> entry_complete c)"
proof -
  have m: "map Some (parse_tool_list w html) =
     map (parse_tool_card w)
       (filter entry_complete (find_all ''div'' (Some ''card-app'') (lxml w html)))"
    by (simp add: parse_tool_list_def parse_cards_filter)
  from arg_cong [OF m, of length] have "length (parse_tool_list w html) =
     length (filter entry_complete (find_all ''div'' (Some ''card-app'') (lxml w html)))"
    by simp
  with m parse_tool_card_complete show ?thesis by blast
qed

section \<open>The per-page operation\<close>

text \<open>
  C5, as amended. When the fetch returns no body or an empty one, or the page is not valid,
  \<open>crawl_page\<close> returns False and the collection is as before; on a valid page it appends
  the extracted records and returns True when there is at least one, and returns False with the
  collection as before when there is none.
\<close>

theorem crawl_page_outcome:
  assumes "fst (page_fetch w pause s page) = Inr r"
  shows "(r = None \<or> r = Some [] \<longrightarrow>
            fst (crawl_page w pause s page) = Inr False \<and>
            tools (snd (crawl_page w pause s page)) = tools s) \<and>
         (r = Some html \<and> html \<noteq> [] \<and> \<not> is_valid_page w html \<longrightarrow>
            fst (crawl_page w pause s page) = Inr False \<and>
            tools (snd (crawl_page w pause s page)) = tools s) \<and>
         (r = Some html \<and> html \<noteq> [] \<and> is_valid_page w html \<and>
          parse_tool_list w html \<noteq> [] \<longrightarrow>
            fst (crawl_page w pause s page) = Inr True \<and>
            tools (snd (crawl_page w pause s page)) = tools s @ parse_tool_list w html) \<and>
         (r = Some html \<and> html \<noteq> [] \<and> is_valid_page w html \<and>
          parse_tool_list w html = [] \<longrightarrow>
            fst (crawl_page w pause s page) = Inr False \<and>
            tools (snd (crawl_page w pause s page)) = tools s)"
  using assms tools_page_fetch [of w pause s page]
  by (auto simp: crawl_page_def Let_def)

text \<open>A page with two entries is fetched and valid: both records are appended.\<close>

theorem crawl_page_outcome_witness:
  "fst (page_fetch (serving (listing [tool_card (lit ''A'') (lit ''/a''),
          tool_card (lit ''B'') (lit ''/b'')])) 2 crawler0 1) =
     Inr (Some ''<html>'') \<and>
   fst (crawl_page (serving (listing [tool_card (lit ''A'') (lit ''/a''),
          tool_card (lit ''B'') (lit ''/b'')])) 2 crawler0 1) = Inr True \<and>
   tools (snd (crawl_page (serving (listing [tool_card (lit ''A'') (lit ''/a''),
          tool_card (lit ''B'') (lit ''/b'')])) 2 crawler0 1)) =
     tools crawler0 @
       parse_tool_list (serving (listing [tool_card (lit ''A'') (lit ''/a''),
          tool_card (lit ''B'') (lit ''/b'')])) ''<html>''"
proof -
  let ?w = "serving (listing [tool_card (lit ''A'') (lit ''/a''), tool_card (lit ''B'') (lit ''/b'')])"
  have f: "fst (page_fetch ?w 2 crawler0 1) = Inr (Some ''<html>'')"
    by code_simp
  have v: "''<html>'' \<noteq> [] \<and> is_valid_page ?w ''<html>'' \<and> parse_tool_list ?w ''<html>'' \<noteq> []"
    by code_simp
  from crawl_page_outcome [OF f, of "''<html>''"] v
  have "fst (crawl_page ?w 2 crawler0 1) = Inr True \<and>
        tools (snd (crawl_page ?w 2 crawler0 1)) = tools crawler0 @ parse_tool_list ?w ''<html>''"
    by blast
  with f show ?thesis by blast
qed

text \<open>
  C5 as stated: a page whose only entry lacks its content block is fetched and is valid, and
  the operation returns False all the same.
\<close>

theorem valid_page_without_records_counterexample:
  "fst (page_fetch (serving (listing [broken_card])) 2 crawler0 1) = Inr (Some ''<html>'') \<and>
   is_valid_page (serving (listing [broken_card])) ''<html>'' \<and>
   fst (crawl_page (serving (listing [broken_card])) 2 crawler0 1) = Inr False"
  by code_simp

text \<open>
  C10. When \<open>crawl_page\<close> returns False the collection of records is what it was; when it
  returns True at least one record was appended; and a page that is fetched and valid but
  yields no record makes it return False, which the count of successful pages leaves out.
\<close>

theorem crawl_page_false_keeps_tools:
  "(crawl_page w pause s page = (Inr False, s') \<longrightarrow> tools s' = tools s) \<and>
   (crawl_page w pause s page = (Inr True, s') \<longrightarrow>
      (\<exists>new. new \<noteq> [] \<and> tools s' = tools s @ new)) \<and>
   (fst (page_fetch w pause s page) = Inr (Some html) \<and>
    html \<noteq> [] \<and> is_valid_page w html \<and> parse_tool_list w html = [] \<longrightarrow>
      fst (crawl_page w pause s page) = Inr False \<and>
      successful_pages (results @ [fst (crawl_page w pause s page) = Inr True]) =
        successful_pages results)"
proof -
  let ?f = "page_fetch w pause s page"
  have t: "tools (snd ?f) = tools s"
    by (simp add: tools_page_fetch)
  have a: "crawl_page w pause s page = (Inr False, s') \<longrightarrow> tools s' = tools s"
    using t by (auto simp: crawl_page_def Let_def split: sum.splits option.splits if_splits)
  have b: "crawl_page w pause s page = (Inr True, s') \<longrightarrow>
      (\<exists>new. new \<noteq> [] \<and> tools s' = tools s @ new)"
    using t by (auto simp: crawl_page_def Let_def split: sum.splits option.splits if_splits)
  have c: "fst ?f = Inr (Some html) \<and> html \<noteq> [] \<and> is_valid_page w html \<and>
      parse_tool_list w html = [] \<longrightarrow>
      fst (crawl_page w pause s page) = Inr False \<and>
      successful_pages (results @ [fst (crawl_page w pause s page) = Inr True]) =
        successful_pages results"
    by (simp add: crawl_page_def Let_def successful_pages_def)
  from a b c show ?thesis by blast
qed

theorem crawl_page_false_keeps_tools_witness:
  "tools (snd (crawl_page (serving (listing [broken_card])) 2 crawler0 1)) = tools crawler0 \<and>
   (\<exists>new. new \<noteq> [] \<and>
      tools (snd (crawl_page (serving (listing [tool_card (lit ''A'') (lit ''/a'')])) 2
        crawler0 1)) = tools crawler0 @ new) \<and>
   fst (crawl_page (serving (listing [broken_card])) 2 crawler0 1) = Inr False \<and>
   successful_pages
     ([True] @ [fst (crawl_page (serving (listing [broken_card])) 2 crawler0 1) = Inr True]) =
   successful_pages [True]"
proof -
  let ?b = "serving (listing [broken_card])"
  let ?g = "serving (listing [tool_card (lit ''A'') (lit ''/a'')])"
  have x: "crawl_page ?b 2 crawler0 1 = (Inr False, snd (crawl_page ?b 2 crawler0 1))"
    by code_simp
  have y: "crawl_page ?g 2 crawler0 1 = (Inr True, snd (crawl_page ?g 2 crawler0 1))"
    by code_simp
  have z: "fst (page_fetch ?b 2 crawler0 1) = Inr (Some ''<html>'') \<and>
    ''<html>'' \<noteq> [] \<and> is_valid_page ?b ''<html>'' \<and> parse_tool_list ?b ''<html>'' = []"
    by code_simp
  from crawl_page_false_keeps_tools [of ?b 2 crawler0 1 "snd (crawl_page ?b 2 crawler0 1)"
      "''<html>''" "[True]"] x z
  have "tools (snd (crawl_page ?b 2 crawler0 1)) = tools crawler0 \<and>
    fst (crawl_page ?b 2 crawler0 1) = Inr False \<and>
    successful_pages ([True] @ [fst (crawl_page ?b 2 crawler0 1) = Inr True]) =
      successful_pages [True]"
    by blast
  moreover
  from crawl_page_false_keeps_tools [of ?g 2 crawler0 1 "snd (crawl_page ?g 2 crawler0 1)"] y
  have "\<exists>new. new \<noteq> [] \<and> tools (snd (crawl_page ?g 2 crawler0 1)) = tools crawler0 @ new"
    by blast
  ultimately show ?thesis by blast
qed

section \<open>The records of the collection\<close>

text \<open>
  The collection grows in two places: \<open>crawl_all\<close> extends it with the records of the first
  page, and \<open>crawl_page\<close> with those of a later page. Both take them from
  \<open>parse_tool_list\<close> on the page they fetched.
\<close>

lemma crawl_page_appends:
  assumes "r \<in> set (drop (length (tools s)) (tools (snd (crawl_page w pause s page))))"
  shows "\<exists>html. fst (page_fetch w pause s page) = Inr (Some html) \<and>
           r \<in> set (parse_tool_list w html)"
  using assms tools_page_fetch [of w pause s page]
  by (auto simp: crawl_page_def Let_def split: sum.splits option.splits if_splits)

lemma crawl_all_first_page_appends:
  assumes "r \<in> set (drop (length (tools s)) (tools (snd (crawl_all_first_page w s))))"
  shows "\<exists>html. fst (fetch_page w s (base_url s) 0) = Inr (Some html) \<and>
           r \<in> set (parse_tool_list w html)"
  using assms tools_fetch_page [of w s "base_url s" 0]
  by (auto simp: crawl_all_first_page_def Let_def split: sum.splits option.splits if_splits)

text \<open>
  C2, as amended. Every record that enters the collection, from the first page in
  \<open>crawl_all\<close> or from a later page in \<open>crawl_page\<close>, is a record that the extraction
  returned for the page just fetched; and every record the extraction returns comes from an
  entry of the page in which the card body, the content block and a name anchor were located:
  its name is the cleaned text of that anchor and its url the stripped \<open>href\<close> of that
  anchor, the empty string when the attribute is absent. Either may be empty.
\<close>

theorem collected_records_have_located_anchor:
  "(r \<in> set (parse_tool_list w html) \<longrightarrow> extracted_on_page w html r) \<and>
   (r \<in> set (drop (length (tools s)) (tools (snd (crawl_page w pause s page)))) \<longrightarrow>
      (\<exists>fetched. fst (page_fetch w pause s page) = Inr (Some fetched) \<and>
         r \<in> set (parse_tool_list w fetched) \<and> extracted_on_page w fetched r)) \<and>
   (r \<in> set (drop (length (tools s)) (tools (snd (crawl_all_first_page w s)))) \<longrightarrow>
      (\<exists>fetched. fst (fetch_page w s (base_url s) 0) = Inr (Some fetched) \<and>
         r \<in> set (parse_tool_list w fetched) \<and> extracted_on_page w fetched r))"
  using parse_tool_list_extracted crawl_page_appends crawl_all_first_page_appends
  by blast

text \<open>
  A page whose only entry has an empty anchor, as a later page and as the first page: the
  record with the empty name and url is the one appended, and it comes from that anchor.
\<close>

theorem collected_records_have_located_anchor_witness:
  "blank_item \<in> set (drop (length (tools crawler0))
      (tools (snd (crawl_page (serving (listing [blank_card])) 2 crawler0 1)))) \<and>
   blank_item \<in> set (drop (length (tools crawler0))
      (tools (snd (crawl_all_first_page (serving (listing [blank_card])) crawler0)))) \<and>
   extracted_on_page (serving (listing [blank_card])) ''<html>'' blank_item"
proof -
  let ?w = "serving (listing [blank_card])"
  have h: "blank_item \<in> set (drop (length (tools crawler0))
      (tools (snd (crawl_page ?w 2 crawler0 1))))"
    by code_simp
  have k: "blank_item \<in> set (drop (length (tools crawler0))
      (tools (snd (crawl_all_first_page ?w crawler0))))"
    by code_simp
  have f: "fst (page_fetch ?w 2 crawler0 1) = Inr (Some ''<html>'')"
    by code_simp
  from collected_records_have_located_anchor [of blank_item ?w _ crawler0 2 1] h f
  have "extracted_on_page ?w ''<html>'' blank_item"
    by auto
  with h k show ?thesis by blast
qed

text \<open>
  C2 as stated: an entry whose anchor has no text and no \<open>href\<close> is not dropped; the
  operation returns True and the collection holds a record with an empty name and an empty url.
\<close>

theorem empty_name_and_url_appended_counterexample:
  "crawl_page (serving (listing [blank_card])) 2 crawler0 1 =
     (Inr True,
      crawler0\<lparr>tools :=
          [[(''name'', []), (''description'', []), (''url'', []),
            (''category'', uncategorized), (''crawl_time'', lit ''2024-01-01 00:00:00''),
            (''views'', lit ''0''), (''likes'', lit ''0''), (''icon_url'', [])]],
        requested := [''https://x/y''], slept := [2]\<rparr>) \<and>
   tools (snd (crawl_all_first_page (serving (listing [blank_card])) crawler0)) =
     [[(''name'', []), (''description'', []), (''url'', []),
       (''category'', uncategorized), (''crawl_time'', lit ''2024-01-01 00:00:00''),
       (''views'', lit ''0''), (''likes'', lit ''0''), (''icon_url'', [])]]"
  by code_simp

section \<open>Pagination\<close>

lemma those_map:
  "those (map f xs) =
     (if list_ex (\<lambda>x. f x = None) xs then None else Some (List.map_filter f xs))"
  by (induction xs) (auto simp: map_filter_simps split: option.splits)

text \<open>
  The list comprehension over the links: one link text that passes \<open>isdigit()\<close> and that
  \<open>int()\<close> rejects makes it raise, otherwise it holds the values of the texts that pass.
\<close>

lemma page_numbers_texts:
  "page_numbers links =
     (if list_ex rejected_digits (map get_text links) then None
      else Some (link_numbers (map get_text links)))"
proof -
  have "list_ex (\<lambda>t. py_int t = None) (filter isdigit (map get_text links)) =
        list_ex rejected_digits (map get_text links)"
    by (auto simp: list_ex_iff rejected_digits_def)
  then show ?thesis
    by (simp add: page_numbers_def those_map link_numbers_def)
qed

lemma fold_max: "fold (\<lambda>y m. if m < y then y else m) xs (x::int) = Max (set (x # xs))"
proof -
  have "(\<lambda>y m::int. if m < y then y else m) = max"
    by (auto simp: fun_eq_iff max_def)
  then show ?thesis by (simp only: Max.set_eq_fold)
qed

lemma py_max_Max: "ns \<noteq> [] \<Longrightarrow> py_max ns = Some (Max (set ns))"
  by (cases ns) (simp_all add: fold_max del: Max_insert set_simps)

lemma link_numbers_Nil:
  "find_all ''a'' (Some ''page-numbers'') p = [] \<Longrightarrow> link_numbers (page_link_texts p) = []"
  by (simp add: page_link_texts_def link_numbers_def map_filter_simps)

lemma total_pages_texts:
  assumes "find ''div'' (Some ''pagination'') (lxml w html) = Some p"
  shows "total_pages (extract_pagination_info w html) =
     (if list_ex rejected_digits (page_link_texts p) \<or> link_numbers (page_link_texts p) = []
      then 1
      else Max (set (link_numbers (page_link_texts p))))"
proof (cases "find_all ''a'' (Some ''page-numbers'') p = []")
  case True
  with assms link_numbers_Nil [OF True] show ?thesis
    by (simp add: extract_pagination_info_def)
next
  case False
  with assms show ?thesis
    by (simp add: extract_pagination_info_def page_link_texts_def Let_def page_numbers_texts
          py_max_Max)
qed

lemma no_pagination:
  "find ''div'' (Some ''pagination'') (lxml w html) = None \<Longrightarrow>
   extract_pagination_info w html = \<lparr>current_page = 1, total_pages = 1\<rparr>"
  by (simp add: extract_pagination_info_def)

text \<open>
  C4, as amended. Without a pagination control the result is \<open>{current_page: 1,
  total_pages: 1}\<close>. With one, \<open>total_pages\<close> is the maximum of \<open>int(t)\<close> over the
  page-link texts \<open>t\<close> that pass \<open>isdigit()\<close>, and 1 when there is no such text or when
  \<open>int()\<close> raises on one of them; the link texts 1, 2, next, 5 give 5.
\<close>

theorem extract_pagination_total_pages:
  "(find ''div'' (Some ''pagination'') (lxml w html) = None \<longrightarrow>
      extract_pagination_info w html = \<lparr>current_page = 1, total_pages = 1\<rparr>) \<and>
   (find ''div'' (Some ''pagination'') (lxml w html) = Some p \<longrightarrow>
      total_pages (extract_pagination_info w html) =
        (if list_ex rejected_digits (page_link_texts p) \<or>
            link_numbers (page_link_texts p) = []
         then 1
         else Max (set (link_numbers (page_link_texts p))))) \<and>
   (find ''div'' (Some ''pagination'') (lxml w html) = Some p \<and>
    page_link_texts p = [lit ''1'', lit ''2'', lit ''next'', lit ''5''] \<longrightarrow>
      total_pages (extract_pagination_info w html) = 5)"
proof (intro conjI impI)
  assume "find ''div'' (Some ''pagination'') (lxml w html) = None"
  then show "extract_pagination_info w html = \<lparr>current_page = 1, total_pages = 1\<rparr>"
    by (rule no_pagination)
next
  assume "find ''div'' (Some ''pagination'') (lxml w html) = Some p"
  then show "total_pages (extract_pagination_info w html) =
        (if list_ex rejected_digits (page_link_texts p) \<or>
            link_numbers (page_link_texts p) = []
         then 1
         else Max (set (link_numbers (page_link_texts p))))"
    by (rule total_pages_texts)
next
  assume "find ''div'' (Some ''pagination'') (lxml w html) = Some p \<and>
    page_link_texts p = [lit ''1'', lit ''2'', lit ''next'', lit ''5'']"
  then have p: "find ''div'' (Some ''pagination'') (lxml w html) = Some p"
    and t: "page_link_texts p = [lit ''1'', lit ''2'', lit ''next'', lit ''5'']"
    by simp_all
  have "(if list_ex rejected_digits [lit ''1'', lit ''2'', lit ''next'', lit ''5''] \<or>
            link_numbers [lit ''1'', lit ''2'', lit ''next'', lit ''5''] = []
         then 1
         else Max (set (link_numbers [lit ''1'', lit ''2'', lit ''next'', lit ''5'']))) = (5::int)"
    by code_simp
  then show "total_pages (extract_pagination_info w html) = 5"
    unfolding total_pages_texts [OF p] t .
qed

theorem extract_pagination_total_pages_witness:
  "total_pages (extract_pagination_info
     (serving (paged [] [lit ''1'', lit ''2'', lit ''next'', lit ''5''])) ''<html>'') = 5 \<and>
   extract_pagination_info (serving (listing [])) ''<html>'' =
     \<lparr>current_page = 1, total_pages = 1\<rparr>"
proof -
  let ?w = "serving (paged [] [lit ''1'', lit ''2'', lit ''next'', lit ''5''])"
  let ?p = "pager [] [lit ''1'', lit ''2'', lit ''next'', lit ''5'']"
  have f: "find ''div'' (Some ''pagination'') (lxml ?w ''<html>'') = Some ?p"
    by code_simp
  have t: "page_link_texts ?p = [lit ''1'', lit ''2'', lit ''next'', lit ''5'']"
    by code_simp
  have n: "find ''div'' (Some ''pagination'') (lxml (serving (listing [])) ''<html>'') = None"
    by code_simp
  from extract_pagination_total_pages [of ?w "''<html>''" ?p] f t
  have "total_pages (extract_pagination_info ?w ''<html>'') = 5"
    by blast
  moreover
  from extract_pagination_total_pages [of "serving (listing [])" "''<html>''"] n
  have "extract_pagination_info (serving (listing [])) ''<html>'' =
     \<lparr>current_page = 1, total_pages = 1\<rparr>"
    by blast
  ultimately show ?thesis by (rule conjI)
qed

text \<open>
  C4 as stated: of the link texts superscript-two and 5, only 5 parses as an integer, so the
  claimed \<open>total_pages\<close> is 5; the code passes the text superscript-two to \<open>int\<close>, which
  raises, and keeps the default 1.
\<close>

theorem superscript_link_counterexample:
  "total_pages
     (extract_pagination_info (serving (paged [lit ''1''] [[SUPERSCRIPT_TWO], lit ''5'']))
        ''<html>'') = 1 \<and>
   page_link_texts (pager [lit ''1''] [[SUPERSCRIPT_TWO], lit ''5'']) =
     [[SUPERSCRIPT_TWO], lit ''5''] \<and>
   claimed_total_pages [[SUPERSCRIPT_TWO], lit ''5''] = 5"
  by code_simp

text \<open>A text that passes \<open>isdigit()\<close> has no sign, so \<open>int()\<close> gives it no negative value.\<close>

lemma digit_value_nonneg: "0 \<le> digit_value c"
proof (cases "List.find (\<lambda>z. z \<le> c \<and> c < z + 10) decimal_zeros")
  case None
  then show ?thesis by (simp add: digit_value_def)
next
  case (Some z)
  then have "z \<le> c"
    by (auto simp: find_Some_iff)
  with Some show ?thesis by (simp add: digit_value_def)
qed

lemma decimal_value_nonneg_aux:
  "0 \<le> acc \<Longrightarrow> 0 \<le> foldl (\<lambda>acc c. 10 * acc + digit_value c) acc t"
proof (induction t arbitrary: acc)
  case Nil
  then show ?case by simp
next
  case (Cons c t)
  from Cons.prems digit_value_nonneg [of c] have "0 \<le> 10 * acc + digit_value c"
    by simp
  with Cons.IH show ?case by simp
qed

lemma decimal_value_nonneg: "0 \<le> decimal_value t"
  by (simp add: decimal_value_def decimal_value_nonneg_aux)

lemma sign_not_digit: "\<not> is_digit MINUS"
  by code_simp

lemma py_int_isdigit_nonneg:
  assumes "isdigit t" and "py_int t = Some n"
  shows "0 \<le> n"
proof -
  let ?u = "rev (dropWhile is_int_space (rev (dropWhile is_int_space t)))"
  have sub: "set ?u \<subseteq> set t"
    by (auto dest!: set_dropWhileD)
  show ?thesis
  proof (cases ?u)
    case Nil
    with assms(2) show ?thesis
      by (simp add: py_int_def)
  next
    case (Cons c cs)
    with sub have "c \<in> set t" by auto
    with assms(1) have "is_digit c"
      by (simp add: isdigit_def list_all_iff)
    with sign_not_digit have m: "c \<noteq> MINUS" by auto
    from assms(2) Cons m decimal_value_nonneg show ?thesis
      by (auto simp: py_int_def Let_def split: if_splits)
  qed
qed

lemma link_numbers_nonneg: "n \<in> set (link_numbers texts) \<Longrightarrow> 0 \<le> n"
  by (auto simp: link_numbers_def map_filter_def dest: py_int_isdigit_nonneg)

lemma in_link_numbers:
  "t \<in> set texts \<Longrightarrow> isdigit t \<Longrightarrow> py_int t = Some n \<Longrightarrow> n \<in> set (link_numbers texts)"
  by (force simp: link_numbers_def map_filter_def)

text \<open>
  C9, as amended. For every markup \<open>total_pages\<close> is a non-negative integer; without a
  pagination control both fields are 1, and without a current marker \<open>current_page\<close> is 1;
  when \<open>int()\<close> accepts every page-link text that passes \<open>isdigit()\<close>, \<open>total_pages\<close> is
  at least \<open>int(t)\<close> for each such text \<open>t\<close>; so \<open>total_pages \<ge> current_page\<close> holds
  whenever such a link carries a number that is at least \<open>current_page\<close>.
\<close>

theorem pagination_bounds:
  "0 \<le> total_pages (extract_pagination_info w html) \<and>
   (find ''div'' (Some ''pagination'') (lxml w html) = None \<longrightarrow>
      current_page (extract_pagination_info w html) = 1 \<and>
      total_pages (extract_pagination_info w html) = 1) \<and>
   (find ''div'' (Some ''pagination'') (lxml w html) = Some p \<and>
    find ''span'' (Some ''current'') p = None \<longrightarrow>
      current_page (extract_pagination_info w html) = 1) \<and>
   (find ''div'' (Some ''pagination'') (lxml w html) = Some p \<and>
    \<not> list_ex rejected_digits (page_link_texts p) \<and>
    t \<in> set (page_link_texts p) \<and> isdigit t \<and> py_int t = Some n \<longrightarrow>
      n \<le> total_pages (extract_pagination_info w html))"
proof (intro conjI impI)
  show "0 \<le> total_pages (extract_pagination_info w html)"
  proof (cases "find ''div'' (Some ''pagination'') (lxml w html)")
    case None
    then show ?thesis by (simp add: no_pagination)
  next
    case (Some q)
    let ?ns = "link_numbers (page_link_texts q)"
    have "0 \<le> Max (set ?ns)" if "?ns \<noteq> []"
    proof -
      from that have "Max (set ?ns) \<in> set ?ns"
        by (intro Max_in) simp_all
      then show ?thesis by (rule link_numbers_nonneg)
    qed
    then show ?thesis
      unfolding total_pages_texts [OF Some] by auto
  qed
next
  assume "find ''div'' (Some ''pagination'') (lxml w html) = None"
  then show "current_page (extract_pagination_info w html) = 1"
    by (simp add: no_pagination)
next
  assume "find ''div'' (Some ''pagination'') (lxml w html) = None"
  then show "total_pages (extract_pagination_info w html) = 1"
    by (simp add: no_pagination)
next
  assume "find ''div'' (Some ''pagination'') (lxml w html) = Some p \<and>
    find ''span'' (Some ''current'') p = None"
  then show "current_page (extract_pagination_info w html) = 1"
    by (simp add: extract_pagination_info_def)
next
  assume a: "find ''div'' (Some ''pagination'') (lxml w html) = Some p \<and>
    \<not> list_ex rejected_digits (page_link_texts p) \<and>
    t \<in> set (page_link_texts p) \<and> isdigit t \<and> py_int t = Some n"
  then have p: "find ''div'' (Some ''pagination'') (lxml w html) = Some p" by simp
  from a have m: "n \<in> set (link_numbers (page_link_texts p))"
    by (blast intro: in_link_numbers)
  then have "n \<le> Max (set (link_numbers (page_link_texts p)))"
    by (intro Max_ge) simp_all
  with a m show "n \<le> total_pages (extract_pagination_info w html)"
    unfolding total_pages_texts [OF p] by auto
qed

text \<open>The first page of three: the current marker reads 1 and the links read 2 and 3.\<close>

theorem pagination_bounds_witness:
  "current_page (extract_pagination_info (serving (paged [lit ''1''] [lit ''2'', lit ''3'']))
     ''<html>'') = 1 \<and>
   3 \<le> total_pages (extract_pagination_info (serving (paged [lit ''1''] [lit ''2'', lit ''3'']))
     ''<html>'') \<and>
   current_page (extract_pagination_info (serving (paged [] [lit ''2'', lit ''3'']))
     ''<html>'') = 1 \<and>
   total_pages (extract_pagination_info (serving (listing [])) ''<html>'') = 1"
proof -
  let ?w = "serving (paged [lit ''1''] [lit ''2'', lit ''3''])"
  let ?p = "pager [lit ''1''] [lit ''2'', lit ''3'']"
  let ?v = "serving (paged [] [lit ''2'', lit ''3''])"
  let ?q = "pager [] [lit ''2'', lit ''3'']"
  have f: "find ''div'' (Some ''pagination'') (lxml ?w ''<html>'') = Some ?p \<and>
      \<not> list_ex rejected_digits (page_link_texts ?p) \<and>
      lit ''3'' \<in> set (page_link_texts ?p) \<and> isdigit (lit ''3'') \<and> py_int (lit ''3'') = Some 3"
    by code_simp
  have c: "current_page (extract_pagination_info ?w ''<html>'') = 1"
    by code_simp
  have g: "find ''div'' (Some ''pagination'') (lxml ?v ''<html>'') = Some ?q \<and>
      find ''span'' (Some ''current'') ?q = None"
    by code_simp
  have n: "find ''div'' (Some ''pagination'') (lxml (serving (listing [])) ''<html>'') = None"
    by code_simp
  from pagination_bounds [of ?w "''<html>''" ?p "lit ''3''" 3] f
  have "3 \<le> total_pages (extract_pagination_info ?w ''<html>'')"
    by blast
  moreover
  from pagination_bounds [of ?v "''<html>''" ?q] g
  have "current_page (extract_pagination_info ?v ''<html>'') = 1"
    by blast
  moreover
  from pagination_bounds [of "serving (listing [])" "''<html>''"] n
  have "total_pages (extract_pagination_info (serving (listing [])) ''<html>'') = 1"
    by blast
  ultimately show ?thesis using c by blast
qed

text \<open>
  C9 as stated. On the last page of three the current marker reads 3 and the page links read
  1 and 2, so \<open>total_pages\<close> is 2, below \<open>current_page\<close>; and with a current marker that
  reads -4 and one page link that reads 0, \<open>current_page\<close> is -4 and \<open>total_pages\<close> is 0,
  neither of them positive.
\<close>

theorem last_page_counterexample:
  "current_page (extract_pagination_info (serving (paged [lit ''3''] [lit ''1'', lit ''2'']))
     ''<html>'') = 3 \<and>
   total_pages (extract_pagination_info (serving (paged [lit ''3''] [lit ''1'', lit ''2'']))
     ''<html>'') = 2 \<and>
   current_page (extract_pagination_info (serving (paged [lit ''-4''] [lit ''0'']))
     ''<html>'') = - 4 \<and>
   total_pages (extract_pagination_info (serving (paged [lit ''-4''] [lit ''0'']))
     ''<html>'') = 0"
  by code_simp

end
